theory Spec2Isabelle
  imports Main "HOL-Library.Word"
begin

unbundle bit_operations_syntax

section \<open>Best-route trade selection (hooks/v3/useBestV3Trade.ts)\<close>

subsection \<open>Data model\<close>

text \<open>The enum \<open>V3TradeState\<close>, in the order of its declaration.\<close>

datatype V3TradeState = LOADING | INVALID | NO_ROUTE_FOUND | VALID | SYNCING

datatype TradeType = EXACT_INPUT | EXACT_OUTPUT

text \<open>
  An ethers \<open>BigNumber\<close> is an arbitrary-precision integer; \<open>a.lt(b)\<close> is \<open>a < b\<close> and
  \<open>a.gt(b)\<close> is \<open>b < a\<close>.
\<close>

type_synonym BigNumber = int

text \<open>
  Modelled from the spec: \<open>CurrencyAmount\<close> and \<open>Trade\<close> are imported by the hook
  (from the SDK and from \<open>lib/src/trade\<close>) and are not part of the sources at hand.
  An Amount is a quantity of a specific Asset as an arbitrary-precision integer; a Trade is
  the winning Route together with the input Amount, the output Amount and the
  swap-direction tag. \<open>CurrencyAmount.fromRawAmount(c, n.toString())\<close> builds the amount
  of asset \<open>c\<close> with raw quantity \<open>n\<close>; \<open>Trade.createUncheckedTrade\<close> stores the four
  fields of its argument object.
\<close>

record 'c CurrencyAmount =
  currency :: 'c
  quotient :: int

definition fromRawAmount :: "'c \<Rightarrow> BigNumber \<Rightarrow> 'c CurrencyAmount" where
  "fromRawAmount c raw = \<lparr>currency = c, quotient = raw\<rparr>"

record ('r, 'c) Trade =
  route :: 'r
  tradeType :: TradeType
  inputAmount :: "'c CurrencyAmount"
  outputAmount :: "'c CurrencyAmount"

definition createUncheckedTrade ::
  "'r \<Rightarrow> TradeType \<Rightarrow> 'c CurrencyAmount \<Rightarrow> 'c CurrencyAmount \<Rightarrow> ('r, 'c) Trade" where
  "createUncheckedTrade r tt ia oa =
     \<lparr>route = r, tradeType = tt, inputAmount = ia, outputAmount = oa\<rparr>"

text \<open>
  One entry of the batch returned by \<open>useSingleContractMultipleData\<close>, with the fields the
  hook reads: the flags \<open>valid\<close>, \<open>loading\<close>, \<open>syncing\<close> and the optional \<open>result\<close>
  (\<open>undefined\<close> is \<open>None\<close>).
\<close>

record 'res CallState =
  valid :: bool
  result :: "'res option"
  loading :: bool
  syncing :: bool

text \<open>
  What the hook reads of a quoter result: \<open>result.amountOut\<close> for \<open>quoteExactInput\<close>,
  \<open>result.amountIn\<close> for \<open>quoteExactOutput\<close>.
\<close>

record ExactInputResult =
  amountOut :: BigNumber

record ExactOutputResult =
  amountIn :: BigNumber

text \<open>
  The accumulator of the reduction, \<open>{ bestRoute, amountOut }\<close> in the exact-input hook and
  \<open>{ bestRoute, amountIn }\<close> in the exact-output hook: both fields start as \<open>null\<close>. The
  amount field is called \<open>bestAmount\<close> here for both hooks.
\<close>

record 'r currentBest =
  bestRoute :: "'r option"
  bestAmount :: "BigNumber option"

text \<open>The object both hooks return.\<close>

record ('r, 'c) TradeComputation =
  state :: V3TradeState
  trade :: "('r, 'c) Trade option"

subsection \<open>Array helpers\<close>

text \<open>\<open>routes[i]\<close>: an index past the end reads \<open>undefined\<close>.\<close>

definition at :: "'a list \<Rightarrow> nat \<Rightarrow> 'a option" where
  "at xs i = (if i < length xs then Some (xs ! i) else None)"

text \<open>
  \<open>xs.reduce(f, init)\<close>: the callback receives the accumulator, the element and its index,
  left to right. \<open>reduceFrom f acc i xs\<close> is the rest of the loop at index \<open>i\<close>.
\<close>

fun reduceFrom :: "('a \<Rightarrow> 'b \<Rightarrow> nat \<Rightarrow> 'a) \<Rightarrow> 'a \<Rightarrow> nat \<Rightarrow> 'b list \<Rightarrow> 'a" where
  "reduceFrom f acc i [] = acc"
| "reduceFrom f acc i (x # xs) = reduceFrom f (f acc x i) (Suc i) xs"

definition reduce :: "('a \<Rightarrow> 'b \<Rightarrow> nat \<Rightarrow> 'a) \<Rightarrow> 'a \<Rightarrow> 'b list \<Rightarrow> 'a" where
  "reduce f init xs = reduceFrom f init 0 xs"

text \<open>\<open>xs.some(p)\<close>.\<close>

definition some :: "('a \<Rightarrow> bool) \<Rightarrow> 'a list \<Rightarrow> bool" where
  "some p xs = list_ex p xs"

subsection \<open>Gas ceiling of the quote calls\<close>

definition DEFAULT_GAS_QUOTE :: nat where
  "DEFAULT_GAS_QUOTE = 2000000"

text \<open>
  \<open>QUOTE_GAS_OVERRIDES\<close> has one key, \<open>ChainId.ZKEVM\<close>. The numeric value of that enum
  member is declared in the SDK, so it is the parameter \<open>zkevm\<close> here.
\<close>

definition QUOTE_GAS_OVERRIDES :: "nat \<Rightarrow> nat \<rightharpoonup> nat" where
  "QUOTE_GAS_OVERRIDES zkevm = [zkevm \<mapsto> 100000000]"

text \<open>
  The option \<open>gasRequired\<close> passed with the batch:
  \<open>chainId ? QUOTE_GAS_OVERRIDES[chainId] ?? DEFAULT_GAS_QUOTE : undefined\<close>.
  A chain id is falsy when it is \<open>undefined\<close> or \<open>0\<close>.
\<close>

definition gasRequired :: "nat \<Rightarrow> nat option \<Rightarrow> nat option" where
  "gasRequired zkevm chainId =
     (case chainId of
        None \<Rightarrow> None
      | Some c \<Rightarrow>
          if c = 0 then None
          else (case QUOTE_GAS_OVERRIDES zkevm c of
                  Some g \<Rightarrow> Some g
                | None \<Rightarrow> Some DEFAULT_GAS_QUOTE))"

subsection \<open>The exact-input selector\<close>

text \<open>The callback of the reduction in \<open>useBestV3TradeExactIn\<close>.\<close>

definition stepExactIn ::
  "'r list \<Rightarrow> 'r currentBest \<Rightarrow> ExactInputResult CallState \<Rightarrow> nat \<Rightarrow> 'r currentBest" where
  "stepExactIn routes best q i =
     (case result q of
        None \<Rightarrow> best
      | Some res \<Rightarrow>
          (case bestAmount best of
             None \<Rightarrow> \<lparr>bestRoute = at routes i, bestAmount = Some (amountOut res)\<rparr>
           | Some b \<Rightarrow>
               if b < amountOut res
               then \<lparr>bestRoute = at routes i, bestAmount = Some (amountOut res)\<rparr>
               else best))"

text \<open>
  The body of the memo that computes the returned object. The values the hook obtains
  from \<open>useAllV3Routes\<close> (\<open>routes\<close>, \<open>routesLoading\<close>) and from
  \<open>useSingleContractMultipleData\<close> (\<open>quotesResults\<close>) are arguments; \<open>amountIn'\<close> and
  \<open>currencyOut\<close> are the hook's own optional parameters.
\<close>

definition useBestV3TradeExactIn ::
  "'r list \<Rightarrow> bool \<Rightarrow> ExactInputResult CallState list \<Rightarrow>
   'c CurrencyAmount option \<Rightarrow> 'c option \<Rightarrow> ('r, 'c) TradeComputation" where
  "useBestV3TradeExactIn routes routesLoading quotesResults amountIn' currencyOut =
     (case amountIn' of
        None \<Rightarrow> \<lparr>state = INVALID, trade = None\<rparr>
      | Some ain \<Rightarrow>
     (case currencyOut of
        None \<Rightarrow> \<lparr>state = INVALID, trade = None\<rparr>
      | Some cout \<Rightarrow>
          if routesLoading \<or> some loading quotesResults
          then \<lparr>state = LOADING, trade = None\<rparr>
          else
            let best = reduce (stepExactIn routes)
                         \<lparr>bestRoute = None, bestAmount = None\<rparr> quotesResults
            in (case bestRoute best of
                  None \<Rightarrow> \<lparr>state = NO_ROUTE_FOUND, trade = None\<rparr>
                | Some r \<Rightarrow>
                    (case bestAmount best of
                       None \<Rightarrow> \<lparr>state = NO_ROUTE_FOUND, trade = None\<rparr>
                     | Some a \<Rightarrow>
                         \<lparr>state = (if some syncing quotesResults then SYNCING else VALID),
                          trade = Some (createUncheckedTrade r EXACT_INPUT ain
                                          (fromRawAmount cout a))\<rparr>))))"

subsection \<open>The exact-output selector\<close>

definition stepExactOut ::
  "'r list \<Rightarrow> 'r currentBest \<Rightarrow> ExactOutputResult CallState \<Rightarrow> nat \<Rightarrow> 'r currentBest" where
  "stepExactOut routes best q i =
     (case result q of
        None \<Rightarrow> best
      | Some res \<Rightarrow>
          (case bestAmount best of
             None \<Rightarrow> \<lparr>bestRoute = at routes i, bestAmount = Some (amountIn res)\<rparr>
           | Some b \<Rightarrow>
               if amountIn res < b
               then \<lparr>bestRoute = at routes i, bestAmount = Some (amountIn res)\<rparr>
               else best))"

text \<open>
  The first test of the exact-output hook has a third disjunct:
  \<open>quotesResults.some(({ valid }) => !valid)\<close>.
\<close>

definition useBestV3TradeExactOut ::
  "'r list \<Rightarrow> bool \<Rightarrow> ExactOutputResult CallState list \<Rightarrow>
   'c option \<Rightarrow> 'c CurrencyAmount option \<Rightarrow> ('r, 'c) TradeComputation" where
  "useBestV3TradeExactOut routes routesLoading quotesResults currencyIn amountOut' =
     (case amountOut' of
        None \<Rightarrow> \<lparr>state = INVALID, trade = None\<rparr>
      | Some aout \<Rightarrow>
     (case currencyIn of
        None \<Rightarrow> \<lparr>state = INVALID, trade = None\<rparr>
      | Some cin \<Rightarrow>
          if some (\<lambda>q. \<not> valid q) quotesResults
          then \<lparr>state = INVALID, trade = None\<rparr>
          else if routesLoading \<or> some loading quotesResults
          then \<lparr>state = LOADING, trade = None\<rparr>
          else
            let best = reduce (stepExactOut routes)
                         \<lparr>bestRoute = None, bestAmount = None\<rparr> quotesResults
            in (case bestRoute best of
                  None \<Rightarrow> \<lparr>state = NO_ROUTE_FOUND, trade = None\<rparr>
                | Some r \<Rightarrow>
                    (case bestAmount best of
                       None \<Rightarrow> \<lparr>state = NO_ROUTE_FOUND, trade = None\<rparr>
                     | Some a \<Rightarrow>
                         \<lparr>state = (if some syncing quotesResults then SYNCING else VALID),
                          trade = Some (createUncheckedTrade r EXACT_OUTPUT
                                          (fromRawAmount cin a) aout)\<rparr>))))"

subsection \<open>The generic selector of the spec\<close>

text \<open>
  Modelled from the spec's wording (sections 4.4 and 9), not from the source: one
  selector for both swap directions, parameterised by the direction tag and its
  comparison strategy (maximise the quoted output for exact input, minimise the quoted
  input for exact output). A quote result is an optional amount with its flags; the
  checks run in the order of section 4.4: absent amount or counter-asset, then loading,
  then the stable left-to-right reduction, then no route found or syncing/valid.
\<close>

definition strictlyBetter :: "TradeType \<Rightarrow> BigNumber \<Rightarrow> BigNumber \<Rightarrow> bool" where
  "strictlyBetter dir new cur =
     (case dir of EXACT_INPUT \<Rightarrow> cur < new | EXACT_OUTPUT \<Rightarrow> new < cur)"

definition stepBest ::
  "TradeType \<Rightarrow> 'r list \<Rightarrow> 'r currentBest \<Rightarrow> BigNumber CallState \<Rightarrow> nat \<Rightarrow> 'r currentBest" where
  "stepBest dir routes best q i =
     (case result q of
        None \<Rightarrow> best
      | Some a \<Rightarrow>
          (case bestAmount best of
             None \<Rightarrow> \<lparr>bestRoute = at routes i, bestAmount = Some a\<rparr>
           | Some b \<Rightarrow>
               if strictlyBetter dir a b
               then \<lparr>bestRoute = at routes i, bestAmount = Some a\<rparr>
               else best))"

definition packageTrade ::
  "TradeType \<Rightarrow> 'r \<Rightarrow> 'c CurrencyAmount \<Rightarrow> 'c CurrencyAmount \<Rightarrow> ('r, 'c) Trade" where
  "packageTrade dir r fixed quoted =
     (case dir of
        EXACT_INPUT \<Rightarrow> createUncheckedTrade r EXACT_INPUT fixed quoted
      | EXACT_OUTPUT \<Rightarrow> createUncheckedTrade r EXACT_OUTPUT quoted fixed)"

definition selectBestTrade ::
  "TradeType \<Rightarrow> 'r list \<Rightarrow> bool \<Rightarrow> BigNumber CallState list \<Rightarrow>
   'c CurrencyAmount option \<Rightarrow> 'c option \<Rightarrow> ('r, 'c) TradeComputation" where
  "selectBestTrade dir routes routesLoading quotes fixedAmount counterAsset =
     (case (fixedAmount, counterAsset) of
        (Some fixed, Some counter) \<Rightarrow>
          if routesLoading \<or> some loading quotes
          then \<lparr>state = LOADING, trade = None\<rparr>
          else
            let best = reduce (stepBest dir routes)
                         \<lparr>bestRoute = None, bestAmount = None\<rparr> quotes
            in (case (bestRoute best, bestAmount best) of
                  (Some r, Some a) \<Rightarrow>
                    \<lparr>state = (if some syncing quotes then SYNCING else VALID),
                     trade = Some (packageTrade dir r fixed (fromRawAmount counter a))\<rparr>
                | _ \<Rightarrow> \<lparr>state = NO_ROUTE_FOUND, trade = None\<rparr>)
      | _ \<Rightarrow> \<lparr>state = INVALID, trade = None\<rparr>)"

text \<open>The batch of either hook seen as a batch of the generic selector.\<close>

definition quoteOfExactIn :: "ExactInputResult CallState \<Rightarrow> BigNumber CallState" where
  "quoteOfExactIn q =
     \<lparr>valid = valid q, result = map_option amountOut (result q),
      loading = loading q, syncing = syncing q\<rparr>"

definition quoteOfExactOut :: "ExactOutputResult CallState \<Rightarrow> BigNumber CallState" where
  "quoteOfExactOut q =
     \<lparr>valid = valid q, result = map_option amountIn (result q),
      loading = loading q, syncing = syncing q\<rparr>"

text \<open>
  Proof vocabulary: index \<open>k\<close> holds the winning amount \<open>m\<close> of a batch when its
  result is \<open>m\<close>, no present result of the batch is strictly better than \<open>m\<close>, and
  every present result before \<open>k\<close> is strictly worse.
\<close>

definition winner :: "TradeType \<Rightarrow> BigNumber CallState list \<Rightarrow> nat \<Rightarrow> BigNumber \<Rightarrow> bool" where
  "winner dir qs k m =
     (k < length qs \<and> result (qs ! k) = Some m
      \<and> list_all (\<lambda>q. case result q of None \<Rightarrow> True
                                     | Some a \<Rightarrow> \<not> strictlyBetter dir a m) qs
      \<and> list_all (\<lambda>q. case result q of None \<Rightarrow> True
                                     | Some a \<Rightarrow> strictlyBetter dir m a) (take k qs))"

subsection \<open>Path encoding and the quote inputs\<close>

type_synonym byte = "8 word"
type_synonym address = "160 word"
type_synonym feeTier = "24 word"

text \<open>
  Modelled from the spec: \<open>Route\<close> (\<open>v3lib/entities/route\<close>) and \<open>encodeRouteToPath\<close>
  (\<open>v3lib/utils/encodeRouteToPath\<close>) are imported by the hook and are not part of the
  sources at hand. Following sections 3 and 4.2, a route is a start asset followed by its
  pools in order, each pool given by its fee tier and the asset it leads to; its ordered
  asset/fee sequence alternates assets and fee tiers from the start asset to the end
  asset. \<open>encodeRouteToPath route exactOutput\<close> serialises that sequence start to end
  for exact input and end to start for exact output. The spec fixes the order of the
  elements, not their widths: here an asset is packed as the 20 bytes of its address and
  a fee tier as 3 bytes, most significant byte first. \<open>decodePath\<close> is the inverse
  helper of the spec's round-trip property.
\<close>

datatype PathItem = Asset address | FeeTier feeTier

record Route =
  start :: address
  hops :: "(feeTier \<times> address) list"

definition routeItems :: "Route \<Rightarrow> PathItem list" where
  "routeItems r = Asset (start r) # concat (map (\<lambda>(f, a). [FeeTier f, Asset a]) (hops r))"

fun bytesBE :: "nat \<Rightarrow> 'a::len word \<Rightarrow> byte list" where
  "bytesBE 0 w = []"
| "bytesBE (Suc n) w = bytesBE n (drop_bit 8 w) @ [ucast w]"

definition wordBE :: "byte list \<Rightarrow> 'a::len word" where
  "wordBE bs = foldl (\<lambda>acc b. push_bit 8 acc OR ucast b) 0 bs"

definition packItem :: "PathItem \<Rightarrow> byte list" where
  "packItem x = (case x of Asset a \<Rightarrow> bytesBE 20 a | FeeTier f \<Rightarrow> bytesBE 3 f)"

definition pack :: "PathItem list \<Rightarrow> byte list" where
  "pack xs = concat (map packItem xs)"

definition encodeRouteToPath :: "Route \<Rightarrow> bool \<Rightarrow> byte list" where
  "encodeRouteToPath r exactOutput =
     (if exactOutput then pack (rev (routeItems r)) else pack (routeItems r))"

fun decodeHops :: "byte list \<Rightarrow> PathItem list option" where
  "decodeHops bs =
     (if bs = [] then Some []
      else if length bs < 23 then None
      else map_option
             (\<lambda>rest. FeeTier (wordBE (take 3 bs)) # Asset (wordBE (take 20 (drop 3 bs))) # rest)
             (decodeHops (drop 23 bs)))"

declare decodeHops.simps [simp del]

definition decodePath :: "byte list \<Rightarrow> PathItem list option" where
  "decodePath bs =
     (if length bs < 20 then None
      else map_option (\<lambda>rest. Asset (wordBE (take 20 bs)) # rest) (decodeHops (drop 20 bs)))"

text \<open>
  \<open>quotient.toString(16)\<close>: lower-case hexadecimal digits without leading zeros, with a
  minus sign in front for a negative number.
\<close>

definition hexDigit :: "nat \<Rightarrow> char" where
  "hexDigit d = ''0123456789abcdef'' ! d"

fun hexNat :: "nat \<Rightarrow> string" where
  "hexNat n = (if n < 16 then [hexDigit n] else hexNat (n div 16) @ [hexDigit (n mod 16)])"

declare hexNat.simps [simp del]

definition toString16 :: "int \<Rightarrow> string" where
  "toString16 n = (if n < 0 then CHR ''-'' # hexNat (nat (- n)) else hexNat (nat n))"

text \<open>
  The call inputs of the two batches: one pair per route, the encoded path and the fixed
  amount as a hexadecimal string (\<open>undefined\<close> when the amount is absent).
\<close>

definition quoteExactInInputs ::
  "'c CurrencyAmount option \<Rightarrow> Route list \<Rightarrow> (byte list \<times> string option) list" where
  "quoteExactInInputs amountIn' routes =
     map (\<lambda>route. (encodeRouteToPath route False,
                   (case amountIn' of
                      Some a \<Rightarrow> Some (''0x'' @ toString16 (quotient a))
                    | None \<Rightarrow> None)))
         routes"

definition quoteExactOutInputs ::
  "'c CurrencyAmount option \<Rightarrow> Route list \<Rightarrow> (byte list \<times> string option) list" where
  "quoteExactOutInputs amountOut' routes =
     map (\<lambda>route. (encodeRouteToPath route True,
                   (case amountOut' of
                      Some a \<Rightarrow> Some (''0x'' @ toString16 (quotient a))
                    | None \<Rightarrow> None)))
         routes"

subsection \<open>Sample call states and the scenario of section 8\<close>

text \<open>
  Entries of a batch used in the concrete instances below: a call that resolved to a
  result, a call still in flight, a call that reverted (no result), and a call that was
  never dispatched (\<open>valid = false\<close>).
\<close>

definition resolved :: "'res \<Rightarrow> 'res CallState" where
  "resolved r = \<lparr>valid = True, result = Some r, loading = False, syncing = False\<rparr>"

definition stale :: "'res \<Rightarrow> 'res CallState" where
  "stale r = \<lparr>valid = True, result = Some r, loading = False, syncing = True\<rparr>"

definition pending :: "'res CallState" where
  "pending = \<lparr>valid = True, result = None, loading = True, syncing = False\<rparr>"

definition reverted :: "'res CallState" where
  "reverted = \<lparr>valid = True, result = None, loading = False, syncing = False\<rparr>"

definition notDispatched :: "'res CallState" where
  "notDispatched = \<lparr>valid = False, result = None, loading = False, syncing = False\<rparr>"

text \<open>
  Asset pair (A, B) with the direct route A-B and the bridged route A-C-B; the fixed
  amount is 10 units.
\<close>

definition twoRoutes :: "string list" where
  "twoRoutes = [''A-B'', ''A-C-B'']"

definition threeRoutes :: "string list" where
  "threeRoutes = [''A-B'', ''A-C-B'', ''A-D-B'']"

definition tenOf :: "string \<Rightarrow> string CurrencyAmount" where
  "tenOf c = \<lparr>currency = c, quotient = 10\<rparr>"

section \<open>Properties\<close>

subsection \<open>Auxiliary facts about the reduction\<close>

lemma some_Nil: "some p [] = False"
  by (simp add: some_def)

lemma some_iff: "some p xs = (\<exists>x \<in> set xs. p x)"
  by (simp add: some_def list_ex_iff)

lemma some_map: "some p (map f xs) = some (\<lambda>x. p (f x)) xs"
  by (simp add: some_iff)

lemma reduceFrom_snoc:
  "reduceFrom f acc i (xs @ [x]) = f (reduceFrom f acc i xs) x (i + length xs)"
  by (induction xs arbitrary: acc i) simp_all

lemma reduce_snoc: "reduce f init (xs @ [x]) = f (reduce f init xs) x (length xs)"
  by (simp add: reduce_def reduceFrom_snoc)

lemma reduce_Nil: "reduce f init [] = init"
  by (simp add: reduce_def)

lemma stepExactIn_stepBest:
  "stepExactIn routes best q i = stepBest EXACT_INPUT routes best (quoteOfExactIn q) i"
  by (simp add: stepExactIn_def stepBest_def quoteOfExactIn_def strictlyBetter_def
      split: option.splits)

lemma stepExactOut_stepBest:
  "stepExactOut routes best q i = stepBest EXACT_OUTPUT routes best (quoteOfExactOut q) i"
  by (simp add: stepExactOut_def stepBest_def quoteOfExactOut_def strictlyBetter_def
      split: option.splits)

lemma quoteOfExactIn_sel:
  "result (quoteOfExactIn q) = map_option amountOut (result q)"
  "valid (quoteOfExactIn q) = valid q"
  "loading (quoteOfExactIn q) = loading q"
  "syncing (quoteOfExactIn q) = syncing q"
  by (simp_all add: quoteOfExactIn_def)

lemma quoteOfExactOut_sel:
  "result (quoteOfExactOut q) = map_option amountIn (result q)"
  "valid (quoteOfExactOut q) = valid q"
  "loading (quoteOfExactOut q) = loading q"
  "syncing (quoteOfExactOut q) = syncing q"
  by (simp_all add: quoteOfExactOut_def)

lemma reduceFrom_map:
  "(\<And>b q i. f b q i = g b (h q) i) \<Longrightarrow> reduceFrom f acc i qs = reduceFrom g acc i (map h qs)"
  by (induction qs arbitrary: acc i) simp_all

lemma reduce_stepExactIn:
  "reduce (stepExactIn routes) init qs
     = reduce (stepBest EXACT_INPUT routes) init (map quoteOfExactIn qs)"
  unfolding reduce_def by (rule reduceFrom_map) (rule stepExactIn_stepBest)

lemma reduce_stepExactOut:
  "reduce (stepExactOut routes) init qs
     = reduce (stepBest EXACT_OUTPUT routes) init (map quoteOfExactOut qs)"
  unfolding reduce_def by (rule reduceFrom_map) (rule stepExactOut_stepBest)

lemma strictlyBetter_irrefl: "\<not> strictlyBetter dir a a"
  by (cases dir) (simp_all add: strictlyBetter_def)

lemma strictlyBetter_trans':
  "\<not> strictlyBetter dir a m \<Longrightarrow> strictlyBetter dir b m \<Longrightarrow> strictlyBetter dir b a"
  by (cases dir) (simp_all add: strictlyBetter_def)

lemma strictlyBetter_asym:
  "strictlyBetter dir b m \<Longrightarrow> \<not> strictlyBetter dir m b"
  by (cases dir) (simp_all add: strictlyBetter_def)

lemma winner_snoc_absent:
  "winner dir qs k m \<Longrightarrow> result q = None \<Longrightarrow> winner dir (qs @ [q]) k m"
  by (simp add: winner_def nth_append)

lemma winner_snoc_keep:
  "winner dir qs k m \<Longrightarrow> result q = Some a \<Longrightarrow> \<not> strictlyBetter dir a m
   \<Longrightarrow> winner dir (qs @ [q]) k m"
  by (simp add: winner_def nth_append)

lemma winner_snoc_replace:
  assumes "winner dir qs k m" "result q = Some a" "strictlyBetter dir a m"
  shows "winner dir (qs @ [q]) (length qs) a"
proof -
  have "list_all (\<lambda>q. case result q of None \<Rightarrow> True | Some b \<Rightarrow> \<not> strictlyBetter dir b m) qs"
    using assms(1) by (simp add: winner_def)
  then have "list_all (\<lambda>q. case result q of None \<Rightarrow> True | Some b \<Rightarrow> strictlyBetter dir a b) qs"
    by (rule list.pred_mono_strong)
      (auto split: option.splits intro: strictlyBetter_trans' [OF _ assms(3)])
  moreover from this
  have "list_all (\<lambda>q. case result q of None \<Rightarrow> True | Some b \<Rightarrow> \<not> strictlyBetter dir b a) qs"
    by (rule list.pred_mono_strong) (auto split: option.splits dest: strictlyBetter_asym)
  ultimately show ?thesis
    using assms(2) by (simp add: winner_def strictlyBetter_irrefl)
qed

lemma winner_snoc_first:
  "\<forall>q \<in> set qs. result q = None \<Longrightarrow> result q = Some a \<Longrightarrow> winner dir (qs @ [q]) (length qs) a"
  by (simp add: winner_def strictlyBetter_irrefl list_all_iff)

lemma reduce_stepBest_char:
  "((\<forall>q \<in> set qs. result q = None) \<and>
      reduce (stepBest dir routes) \<lparr>bestRoute = None, bestAmount = None\<rparr> qs
        = \<lparr>bestRoute = None, bestAmount = None\<rparr>)
   \<or> (\<exists>k m. winner dir qs k m \<and>
      reduce (stepBest dir routes) \<lparr>bestRoute = None, bestAmount = None\<rparr> qs
        = \<lparr>bestRoute = at routes k, bestAmount = Some m\<rparr>)"
proof (induction qs rule: rev_induct)
  case Nil
  show ?case by (simp add: reduce_Nil)
next
  case (snoc q qs)
  let ?init = "\<lparr>bestRoute = None, bestAmount = None\<rparr> :: 'a currentBest"
  let ?R = "reduce (stepBest dir routes) ?init qs"
  let ?R' = "reduce (stepBest dir routes) ?init (qs @ [q])"
  show ?case
  proof (cases "result q")
    case None
    then have "?R' = ?R"
      by (simp add: reduce_snoc stepBest_def)
    with snoc None show ?thesis
      by (auto intro: winner_snoc_absent)
  next
    case (Some a)
    from snoc show ?thesis
    proof
      assume h: "(\<forall>q \<in> set qs. result q = None) \<and> ?R = ?init"
      then have "?R' = \<lparr>bestRoute = at routes (length qs), bestAmount = Some a\<rparr>"
        using Some by (simp add: reduce_snoc stepBest_def)
      moreover have "winner dir (qs @ [q]) (length qs) a"
        using h Some by (simp add: winner_snoc_first)
      ultimately show ?thesis by blast
    next
      assume "\<exists>k m. winner dir qs k m \<and> ?R = \<lparr>bestRoute = at routes k, bestAmount = Some m\<rparr>"
      then obtain k m where w: "winner dir qs k m"
        and R: "?R = \<lparr>bestRoute = at routes k, bestAmount = Some m\<rparr>" by blast
      show ?thesis
      proof (cases "strictlyBetter dir a m")
        case True
        have "?R' = \<lparr>bestRoute = at routes (length qs), bestAmount = Some a\<rparr>"
          using Some R True by (simp add: reduce_snoc stepBest_def)
        moreover have "winner dir (qs @ [q]) (length qs) a"
          using w Some True by (rule winner_snoc_replace)
        ultimately show ?thesis by blast
      next
        case False
        have "?R' = \<lparr>bestRoute = at routes k, bestAmount = Some m\<rparr>"
          using Some R False by (simp add: reduce_snoc stepBest_def)
        moreover have "winner dir (qs @ [q]) k m"
          using w Some False by (rule winner_snoc_keep)
        ultimately show ?thesis by blast
      qed
    qed
  qed
qed

lemma reduce_stepBest_absent:
  "\<forall>q \<in> set qs. result q = None \<Longrightarrow>
   reduce (stepBest dir routes) \<lparr>bestRoute = None, bestAmount = None\<rparr> qs
     = \<lparr>bestRoute = None, bestAmount = None\<rparr>"
  using reduce_stepBest_char [of qs dir routes]
  by (auto simp: winner_def dest: nth_mem)

lemma reduce_stepBest_present:
  assumes "\<exists>q \<in> set qs. result q \<noteq> None"
  shows "\<exists>k m. winner dir qs k m \<and>
      reduce (stepBest dir routes) \<lparr>bestRoute = None, bestAmount = None\<rparr> qs
        = \<lparr>bestRoute = at routes k, bestAmount = Some m\<rparr>"
  using reduce_stepBest_char [of qs dir routes] assms by auto

lemma winner_no_better:
  "winner dir qs k m \<Longrightarrow> q \<in> set qs \<Longrightarrow> result q = Some a \<Longrightarrow> \<not> strictlyBetter dir a m"
  by (auto simp: winner_def list_all_iff split: option.splits)

lemma winner_earlier_worse:
  "winner dir qs k m \<Longrightarrow> j < k \<Longrightarrow> result (qs ! j) = Some a \<Longrightarrow> strictlyBetter dir m a"
  by (auto simp: winner_def list_all_length split: option.splits)

lemma winner_at: "winner dir qs k m \<Longrightarrow> k < length qs \<and> result (qs ! k) = Some m"
  by (simp add: winner_def)

lemma exactIn_reduction:
  assumes "length qs = length routes" "\<exists>q \<in> set qs. result q \<noteq> None"
  shows "\<exists>k m. k < length qs \<and> map_option amountOut (result (qs ! k)) = Some m
     \<and> (\<forall>q \<in> set qs. \<forall>res. result q = Some res \<longrightarrow> amountOut res \<le> m)
     \<and> (\<forall>j < k. \<forall>res. result (qs ! j) = Some res \<longrightarrow> amountOut res < m)
     \<and> reduce (stepExactIn routes) \<lparr>bestRoute = None, bestAmount = None\<rparr> qs
         = \<lparr>bestRoute = Some (routes ! k), bestAmount = Some m\<rparr>"
proof -
  let ?qs = "map quoteOfExactIn qs"
  have "\<exists>q \<in> set ?qs. result q \<noteq> None"
    using assms(2) by (auto simp: quoteOfExactIn_sel)
  from reduce_stepBest_present [OF this, of EXACT_INPUT routes]
  obtain k m where w: "winner EXACT_INPUT ?qs k m"
    and R: "reduce (stepBest EXACT_INPUT routes) \<lparr>bestRoute = None, bestAmount = None\<rparr> ?qs
        = \<lparr>bestRoute = at routes k, bestAmount = Some m\<rparr>" by blast
  from winner_at [OF w] have k: "k < length qs"
    and rk: "map_option amountOut (result (qs ! k)) = Some m"
    by (auto simp: quoteOfExactIn_sel)
  have best: "amountOut res \<le> m" if "q \<in> set qs" "result q = Some res" for q res
    using winner_no_better [OF w, of "quoteOfExactIn q" "amountOut res"] that
    by (auto simp: quoteOfExactIn_sel strictlyBetter_def)
  have early: "amountOut res < m" if "j < k" "result (qs ! j) = Some res" for j res
    using winner_earlier_worse [OF w, of j "amountOut res"] that k
    by (auto simp: quoteOfExactIn_sel strictlyBetter_def)
  have "reduce (stepExactIn routes) \<lparr>bestRoute = None, bestAmount = None\<rparr> qs
         = \<lparr>bestRoute = Some (routes ! k), bestAmount = Some m\<rparr>"
    using R k assms(1) by (simp add: reduce_stepExactIn at_def)
  with k rk best early show ?thesis by blast
qed

lemma exactOut_reduction:
  assumes "length qs = length routes" "\<exists>q \<in> set qs. result q \<noteq> None"
  shows "\<exists>k m. k < length qs \<and> map_option amountIn (result (qs ! k)) = Some m
     \<and> (\<forall>q \<in> set qs. \<forall>res. result q = Some res \<longrightarrow> m \<le> amountIn res)
     \<and> (\<forall>j < k. \<forall>res. result (qs ! j) = Some res \<longrightarrow> m < amountIn res)
     \<and> reduce (stepExactOut routes) \<lparr>bestRoute = None, bestAmount = None\<rparr> qs
         = \<lparr>bestRoute = Some (routes ! k), bestAmount = Some m\<rparr>"
proof -
  let ?qs = "map quoteOfExactOut qs"
  have "\<exists>q \<in> set ?qs. result q \<noteq> None"
    using assms(2) by (auto simp: quoteOfExactOut_sel)
  from reduce_stepBest_present [OF this, of EXACT_OUTPUT routes]
  obtain k m where w: "winner EXACT_OUTPUT ?qs k m"
    and R: "reduce (stepBest EXACT_OUTPUT routes) \<lparr>bestRoute = None, bestAmount = None\<rparr> ?qs
        = \<lparr>bestRoute = at routes k, bestAmount = Some m\<rparr>" by blast
  from winner_at [OF w] have k: "k < length qs"
    and rk: "map_option amountIn (result (qs ! k)) = Some m"
    by (auto simp: quoteOfExactOut_sel)
  have best: "m \<le> amountIn res" if "q \<in> set qs" "result q = Some res" for q res
    using winner_no_better [OF w, of "quoteOfExactOut q" "amountIn res"] that
    by (auto simp: quoteOfExactOut_sel strictlyBetter_def)
  have early: "m < amountIn res" if "j < k" "result (qs ! j) = Some res" for j res
    using winner_earlier_worse [OF w, of j "amountIn res"] that k
    by (auto simp: quoteOfExactOut_sel strictlyBetter_def)
  have "reduce (stepExactOut routes) \<lparr>bestRoute = None, bestAmount = None\<rparr> qs
         = \<lparr>bestRoute = Some (routes ! k), bestAmount = Some m\<rparr>"
    using R k assms(1) by (simp add: reduce_stepExactOut at_def)
  with k rk best early show ?thesis by blast
qed

lemma exactIn_after_checks:
  "\<not> routesLoading \<Longrightarrow> \<not> some loading qs \<Longrightarrow> 
   reduce (stepExactIn routes) \<lparr>bestRoute = None, bestAmount = None\<rparr> qs
      = \<lparr>bestRoute = Some r, bestAmount = Some m\<rparr> \<Longrightarrow>
   useBestV3TradeExactIn routes routesLoading qs (Some ain) (Some cout)
     = \<lparr>state = (if some syncing qs then SYNCING else VALID),
        trade = Some (createUncheckedTrade r EXACT_INPUT ain (fromRawAmount cout m))\<rparr>"
  by (simp add: useBestV3TradeExactIn_def)

lemma exactOut_after_checks:
  "\<not> some (\<lambda>q. \<not> valid q) qs \<Longrightarrow> \<not> routesLoading \<Longrightarrow> \<not> some loading qs \<Longrightarrow> 
   reduce (stepExactOut routes) \<lparr>bestRoute = None, bestAmount = None\<rparr> qs
      = \<lparr>bestRoute = Some r, bestAmount = Some m\<rparr> \<Longrightarrow>
   useBestV3TradeExactOut routes routesLoading qs (Some cin) (Some aout)
     = \<lparr>state = (if some syncing qs then SYNCING else VALID),
        trade = Some (createUncheckedTrade r EXACT_OUTPUT (fromRawAmount cin m) aout)\<rparr>"
  by (simp add: useBestV3TradeExactOut_def)



subsection \<open>The chosen amount is optimal\<close>

text \<open>
  Claim C1 as stated fails for the exact-output selector: with index-aligned routes and
  quote results, a present quote result, the fixed amount and the counter-asset defined
  and nothing loading, a batch that holds a quote result with \<open>valid = false\<close> is
  reported INVALID with a null trade, so no input amount is chosen.
\<close>

theorem exactOut_no_choice_counterexample:
  "length [resolved \<lparr>amountIn = 12\<rparr>, notDispatched] = length twoRoutes
   \<and> result (resolved \<lparr>amountIn = 12\<rparr>) = Some \<lparr>amountIn = 12\<rparr>
   \<and> some loading [resolved \<lparr>amountIn = 12\<rparr>, notDispatched] = False
   \<and> useBestV3TradeExactOut twoRoutes False [resolved \<lparr>amountIn = 12\<rparr>, notDispatched]
         (Some ''A'') (Some (tenOf ''B''))
       = \<lparr>state = INVALID, trade = None\<rparr>"
  by (simp add: resolved_def notDispatched_def twoRoutes_def useBestV3TradeExactOut_def some_def)

text \<open>
  Claim C1, amended. Routes and quote results are index-aligned, at least one quote result
  is present, the fixed amount and the counter-asset are defined, nothing is loading and,
  for the exact-output selector, every quote result is valid. Then the exact-input
  selector returns a trade whose output amount is the amount chosen by the reduction, is
  greater than or equal to the output amount of every candidate with a present result and
  is the output amount of one of them; symmetrically the exact-output selector returns a
  trade whose input amount is the amount chosen by the reduction, is less than or equal
  to every candidate's input amount and is the input amount of one of them.
\<close>

theorem best_amount_is_optimal:
  assumes "length qsIn = length routes" and "\<exists>q \<in> set qsIn. result q \<noteq> None"
    and "\<not> some loading qsIn"
    and "length qsOut = length routes" and "\<exists>q \<in> set qsOut. result q \<noteq> None"
    and "\<not> some loading qsOut" and "\<not> some (\<lambda>q. \<not> valid q) qsOut"
  shows "(\<exists>t. trade (useBestV3TradeExactIn routes False qsIn (Some ain) (Some cout)) = Some t
            \<and> bestAmount (reduce (stepExactIn routes)
                 \<lparr>bestRoute = None, bestAmount = None\<rparr> qsIn) = Some (quotient (outputAmount t))
            \<and> (\<forall>q \<in> set qsIn. \<forall>res. result q = Some res
                  \<longrightarrow> amountOut res \<le> quotient (outputAmount t))
            \<and> (\<exists>q \<in> set qsIn. \<exists>res. result q = Some res
                  \<and> amountOut res = quotient (outputAmount t)))
       \<and> (\<exists>t. trade (useBestV3TradeExactOut routes False qsOut (Some cin) (Some aout)) = Some t
            \<and> bestAmount (reduce (stepExactOut routes)
                 \<lparr>bestRoute = None, bestAmount = None\<rparr> qsOut) = Some (quotient (inputAmount t))
            \<and> (\<forall>q \<in> set qsOut. \<forall>res. result q = Some res
                  \<longrightarrow> quotient (inputAmount t) \<le> amountIn res)
            \<and> (\<exists>q \<in> set qsOut. \<exists>res. result q = Some res
                  \<and> amountIn res = quotient (inputAmount t)))"
proof -
  from exactIn_reduction [OF assms(1,2)] obtain k m where k: "k < length qsIn"
    and rk: "map_option amountOut (result (qsIn ! k)) = Some m"
    and best: "\<forall>q \<in> set qsIn. \<forall>res. result q = Some res \<longrightarrow> amountOut res \<le> m"
    and R: "reduce (stepExactIn routes) \<lparr>bestRoute = None, bestAmount = None\<rparr> qsIn
         = \<lparr>bestRoute = Some (routes ! k), bestAmount = Some m\<rparr>" by blast
  have att: "\<exists>q \<in> set qsIn. \<exists>res. result q = Some res \<and> amountOut res = m"
    using k rk nth_mem [OF k] by auto
  have A: "\<exists>t. trade (useBestV3TradeExactIn routes False qsIn (Some ain) (Some cout)) = Some t
            \<and> bestAmount (reduce (stepExactIn routes)
                 \<lparr>bestRoute = None, bestAmount = None\<rparr> qsIn) = Some (quotient (outputAmount t))
            \<and> (\<forall>q \<in> set qsIn. \<forall>res. result q = Some res
                  \<longrightarrow> amountOut res \<le> quotient (outputAmount t))
            \<and> (\<exists>q \<in> set qsIn. \<exists>res. result q = Some res
                  \<and> amountOut res = quotient (outputAmount t))"
    using best att R exactIn_after_checks [OF _ assms(3) R, of False ain cout]
    by (simp add: createUncheckedTrade_def fromRawAmount_def)
  from exactOut_reduction [OF assms(4,5)] obtain k' m' where k': "k' < length qsOut"
    and rk': "map_option amountIn (result (qsOut ! k')) = Some m'"
    and best': "\<forall>q \<in> set qsOut. \<forall>res. result q = Some res \<longrightarrow> m' \<le> amountIn res"
    and R': "reduce (stepExactOut routes) \<lparr>bestRoute = None, bestAmount = None\<rparr> qsOut
         = \<lparr>bestRoute = Some (routes ! k'), bestAmount = Some m'\<rparr>" by blast
  have att': "\<exists>q \<in> set qsOut. \<exists>res. result q = Some res \<and> amountIn res = m'"
    using k' rk' nth_mem [OF k'] by auto
  have B: "\<exists>t. trade (useBestV3TradeExactOut routes False qsOut (Some cin) (Some aout)) = Some t
            \<and> bestAmount (reduce (stepExactOut routes)
                 \<lparr>bestRoute = None, bestAmount = None\<rparr> qsOut) = Some (quotient (inputAmount t))
            \<and> (\<forall>q \<in> set qsOut. \<forall>res. result q = Some res
                  \<longrightarrow> quotient (inputAmount t) \<le> amountIn res)
            \<and> (\<exists>q \<in> set qsOut. \<exists>res. result q = Some res
                  \<and> amountIn res = quotient (inputAmount t))"
    using best' att' R' exactOut_after_checks [OF assms(7) _ assms(6) R', of False cin aout]
    by (simp add: createUncheckedTrade_def fromRawAmount_def)
  from A B show ?thesis ..
qed

theorem best_amount_is_optimal_witness:
  "quotient (outputAmount (the (trade (useBestV3TradeExactIn twoRoutes False
       [resolved \<lparr>amountOut = 100\<rparr>, resolved \<lparr>amountOut = 95\<rparr>]
       (Some (tenOf ''A'')) (Some ''B''))))) = 100
   \<and> quotient (inputAmount (the (trade (useBestV3TradeExactOut twoRoutes False
       [resolved \<lparr>amountIn = 12\<rparr>, resolved \<lparr>amountIn = 11\<rparr>]
       (Some ''A'') (Some (tenOf ''B'')))))) = 11
   \<and> (\<exists>t. trade (useBestV3TradeExactOut twoRoutes False
                 [resolved \<lparr>amountIn = 12\<rparr>, resolved \<lparr>amountIn = 11\<rparr>]
                 (Some ''A'') (Some (tenOf ''B''))) = Some t
            \<and> (\<forall>q \<in> set [resolved \<lparr>amountIn = 12\<rparr>, resolved \<lparr>amountIn = 11\<rparr>].
                  \<forall>res. result q = Some res \<longrightarrow> quotient (inputAmount t) \<le> amountIn res))"
proof -
  have h: "length [resolved \<lparr>amountOut = 100\<rparr>, resolved \<lparr>amountOut = 95\<rparr>] = length twoRoutes"
    "\<exists>q \<in> set [resolved \<lparr>amountOut = 100\<rparr>, resolved \<lparr>amountOut = 95\<rparr>]. result q \<noteq> None"
    "\<not> some loading [resolved \<lparr>amountOut = 100\<rparr>, resolved \<lparr>amountOut = 95\<rparr>]"
    "length [resolved \<lparr>amountIn = 12\<rparr>, resolved \<lparr>amountIn = 11\<rparr>] = length twoRoutes"
    "\<exists>q \<in> set [resolved \<lparr>amountIn = 12\<rparr>, resolved \<lparr>amountIn = 11\<rparr>]. result q \<noteq> None"
    "\<not> some loading [resolved \<lparr>amountIn = 12\<rparr>, resolved \<lparr>amountIn = 11\<rparr>]"
    "\<not> some (\<lambda>q. \<not> valid q) [resolved \<lparr>amountIn = 12\<rparr>, resolved \<lparr>amountIn = 11\<rparr>]"
    by (simp_all add: resolved_def twoRoutes_def some_def)
  from best_amount_is_optimal [OF h, of "tenOf ''A''" "''B''" "''A''" "tenOf ''B''"]
  show ?thesis
    by (simp add: resolved_def twoRoutes_def some_def useBestV3TradeExactIn_def
        useBestV3TradeExactOut_def reduce_def stepExactIn_def stepExactOut_def at_def
        createUncheckedTrade_def fromRawAmount_def)
qed

subsection \<open>Absent inputs\<close>

text \<open>
  Claim C5. When the fixed amount or the counter-asset is absent, both selectors return
  state INVALID with a null trade, whatever the routes, the loading flags and the quote
  results are.
\<close>

theorem invalid_when_input_absent:
  assumes "fixedAmount = None \<or> counterAsset = None"
  shows "useBestV3TradeExactIn routes routesLoading qsIn fixedAmount counterAsset
           = \<lparr>state = INVALID, trade = None\<rparr>
       \<and> useBestV3TradeExactOut routes routesLoading qsOut counterAsset fixedAmount
           = \<lparr>state = INVALID, trade = None\<rparr>"
  using assms
  by (auto simp: useBestV3TradeExactIn_def useBestV3TradeExactOut_def split: option.splits)

theorem invalid_when_input_absent_witness:
  "((None :: string CurrencyAmount option) = None \<or> Some ''B'' = None)
   \<and> useBestV3TradeExactIn [''A-B''] True
        [\<lparr>valid = True, result = Some \<lparr>amountOut = 100\<rparr>, loading = True, syncing = True\<rparr>]
        None (Some ''B'')
       = \<lparr>state = INVALID, trade = None\<rparr>
   \<and> useBestV3TradeExactOut [''A-B''] True
        [\<lparr>valid = True, result = Some \<lparr>amountIn = 7\<rparr>, loading = True, syncing = True\<rparr>]
        (Some ''B'') None
       = \<lparr>state = INVALID, trade = None\<rparr>"
  using invalid_when_input_absent [of "None :: string CurrencyAmount option" "Some ''B''" "[''A-B'']" True
      "[\<lparr>valid = True, result = Some \<lparr>amountOut = 100\<rparr>, loading = True, syncing = True\<rparr>]"
      "[\<lparr>valid = True, result = Some \<lparr>amountIn = 7\<rparr>, loading = True, syncing = True\<rparr>]"]
  by simp

subsection \<open>State and trade are consistent\<close>

text \<open>
  Claim C6. For every input of either selector, the returned trade is non-null if and
  only if the returned state is VALID or SYNCING.
\<close>

theorem trade_present_iff_valid_or_syncing:
  "(trade (useBestV3TradeExactIn routes routesLoading qsIn amountIn' currencyOut) \<noteq> None)
     = (state (useBestV3TradeExactIn routes routesLoading qsIn amountIn' currencyOut)
          \<in> {VALID, SYNCING})
   \<and> (trade (useBestV3TradeExactOut routes routesLoading qsOut currencyIn amountOut') \<noteq> None)
     = (state (useBestV3TradeExactOut routes routesLoading qsOut currencyIn amountOut')
          \<in> {VALID, SYNCING})"
  by (simp add: useBestV3TradeExactIn_def useBestV3TradeExactOut_def Let_def
      split: option.splits)

subsection \<open>Ties go to the earliest route\<close>



subsection \<open>The two selectors and the generic selector\<close>

text \<open>
  Claim C2 as stated fails: the exact-output selector also returns INVALID when the fixed
  amount and the counter-asset are present but some quote result has \<open>valid = false\<close>,
  where the exact-input selector goes on to the reduction.
\<close>

theorem exactOut_invalid_guard_counterexample:
  "state (useBestV3TradeExactOut twoRoutes False [resolved \<lparr>amountIn = 12\<rparr>, notDispatched]
            (Some ''A'') (Some (tenOf ''B''))) = INVALID
   \<and> state (useBestV3TradeExactIn twoRoutes False [resolved \<lparr>amountOut = 100\<rparr>, notDispatched]
            (Some (tenOf ''A'')) (Some ''B'')) = VALID"
  by (simp add: resolved_def notDispatched_def twoRoutes_def tenOf_def
      useBestV3TradeExactIn_def useBestV3TradeExactOut_def some_def reduce_def
      stepExactIn_def stepExactOut_def at_def createUncheckedTrade_def fromRawAmount_def)

text \<open>
  Claim C2, amended. The exact-input selector is the generic selector of the spec run in
  direction exact input; the exact-output selector is the generic selector run in
  direction exact output (same checks in the same order, minimising the quoted input
  instead of maximising the quoted output, same tie-break), except that it first returns
  INVALID when the fixed amount and the counter-asset are present and some quote result is
  not valid. The exact-input state is INVALID exactly when the fixed amount or the
  counter-asset is absent; the exact-output state is INVALID exactly when one of them is
  absent or some quote result is not valid.
\<close>

theorem selectors_share_generic_selector:
  "useBestV3TradeExactIn routes routesLoading qsIn amountIn' currencyOut
     = selectBestTrade EXACT_INPUT routes routesLoading (map quoteOfExactIn qsIn)
         amountIn' currencyOut
   \<and> useBestV3TradeExactOut routes routesLoading qsOut currencyIn amountOut'
     = (if amountOut' \<noteq> None \<and> currencyIn \<noteq> None \<and> some (\<lambda>q. \<not> valid q) qsOut
        then \<lparr>state = INVALID, trade = None\<rparr>
        else selectBestTrade EXACT_OUTPUT routes routesLoading (map quoteOfExactOut qsOut)
               amountOut' currencyIn)
   \<and> (state (useBestV3TradeExactIn routes routesLoading qsIn amountIn' currencyOut) = INVALID)
       = (amountIn' = None \<or> currencyOut = None)
   \<and> (state (useBestV3TradeExactOut routes routesLoading qsOut currencyIn amountOut') = INVALID)
       = (amountOut' = None \<or> currencyIn = None \<or> some (\<lambda>q. \<not> valid q) qsOut)"
proof -
  have A: "useBestV3TradeExactIn routes routesLoading qsIn amountIn' currencyOut
     = selectBestTrade EXACT_INPUT routes routesLoading (map quoteOfExactIn qsIn)
         amountIn' currencyOut"
    by (simp add: useBestV3TradeExactIn_def selectBestTrade_def reduce_stepExactIn [symmetric]
        some_map quoteOfExactIn_sel packageTrade_def Let_def split: option.splits)
  have B: "useBestV3TradeExactOut routes routesLoading qsOut currencyIn amountOut'
     = (if amountOut' \<noteq> None \<and> currencyIn \<noteq> None \<and> some (\<lambda>q. \<not> valid q) qsOut
        then \<lparr>state = INVALID, trade = None\<rparr>
        else selectBestTrade EXACT_OUTPUT routes routesLoading (map quoteOfExactOut qsOut)
               amountOut' currencyIn)"
    by (simp add: useBestV3TradeExactOut_def selectBestTrade_def reduce_stepExactOut [symmetric]
        some_map quoteOfExactOut_sel packageTrade_def Let_def split: option.splits)
  have C: "(state (useBestV3TradeExactIn routes routesLoading qsIn amountIn' currencyOut) = INVALID)
       = (amountIn' = None \<or> currencyOut = None)"
    by (simp add: useBestV3TradeExactIn_def Let_def split: option.splits)
  have D: "(state (useBestV3TradeExactOut routes routesLoading qsOut currencyIn amountOut') = INVALID)
       = (amountOut' = None \<or> currencyIn = None \<or> some (\<lambda>q. \<not> valid q) qsOut)"
    by (simp add: useBestV3TradeExactOut_def Let_def split: option.splits)
  from A B C D show ?thesis by (intro conjI)
qed

theorem selectors_share_generic_selector_witness:
  "useBestV3TradeExactOut twoRoutes False [resolved \<lparr>amountIn = 12\<rparr>, resolved \<lparr>amountIn = 11\<rparr>]
       (Some ''A'') (Some (tenOf ''B''))
     = selectBestTrade EXACT_OUTPUT twoRoutes False [resolved 12, resolved 11]
         (Some (tenOf ''B'')) (Some ''A'')
   \<and> trade (useBestV3TradeExactOut twoRoutes False
         [resolved \<lparr>amountIn = 12\<rparr>, resolved \<lparr>amountIn = 11\<rparr>] (Some ''A'') (Some (tenOf ''B'')))
     = Some \<lparr>route = ''A-C-B'', tradeType = EXACT_OUTPUT,
             inputAmount = \<lparr>currency = ''A'', quotient = 11\<rparr>, outputAmount = tenOf ''B''\<rparr>"
  using selectors_share_generic_selector [where routes = twoRoutes and routesLoading = False
      and qsOut = "[resolved \<lparr>amountIn = 12\<rparr>, resolved \<lparr>amountIn = 11\<rparr>]"
      and currencyIn = "Some ''A''" and amountOut' = "Some (tenOf ''B'')"]
  by (simp add: resolved_def twoRoutes_def tenOf_def
      useBestV3TradeExactOut_def some_def reduce_def stepExactOut_def at_def
      createUncheckedTrade_def fromRawAmount_def
      quoteOfExactOut_def selectBestTrade_def stepBest_def
      strictlyBetter_def packageTrade_def)

subsection \<open>Loading is tested before the reduction\<close>

text \<open>
  Claim C3 as stated fails for the exact-output selector: with the fixed amount and the
  counter-asset present and one request still loading, a batch that also holds a quote
  result with \<open>valid = false\<close> is reported INVALID, not LOADING.
\<close>

theorem exactOut_loading_counterexample:
  "some loading [resolved \<lparr>amountIn = 12\<rparr>, pending, notDispatched]
   \<and> useBestV3TradeExactOut threeRoutes False
         [resolved \<lparr>amountIn = 12\<rparr>, pending, notDispatched] (Some ''A'') (Some (tenOf ''B''))
       = \<lparr>state = INVALID, trade = None\<rparr>"
  by (simp add: resolved_def pending_def notDispatched_def useBestV3TradeExactOut_def some_def)

text \<open>
  Claim C3, amended. With the fixed amount and the counter-asset present, if route
  enumeration is loading or any quote result has its loading flag set, the exact-input
  selector returns LOADING with a null trade; the exact-output selector returns LOADING
  with a null trade when every quote result of its batch is valid and INVALID with a null
  trade otherwise, however many other quote results have resolved. For every input of
  either selector, NO_ROUTE_FOUND is not returned while anything is loading.
\<close>

theorem loading_before_no_route:
  "(routesLoading \<or> some loading qsIn \<longrightarrow>
      useBestV3TradeExactIn routes routesLoading qsIn (Some ain) (Some cout)
        = \<lparr>state = LOADING, trade = None\<rparr>)
   \<and> (routesLoading \<or> some loading qsOut \<longrightarrow> \<not> some (\<lambda>q. \<not> valid q) qsOut \<longrightarrow>
      useBestV3TradeExactOut routes routesLoading qsOut (Some cin) (Some aout)
        = \<lparr>state = LOADING, trade = None\<rparr>)
   \<and> (routesLoading \<or> some loading qsOut \<longrightarrow> some (\<lambda>q. \<not> valid q) qsOut \<longrightarrow>
      useBestV3TradeExactOut routes routesLoading qsOut (Some cin) (Some aout)
        = \<lparr>state = INVALID, trade = None\<rparr>)
   \<and> (routesLoading \<or> some loading qsIn \<longrightarrow>
      state (useBestV3TradeExactIn routes routesLoading qsIn amountIn' currencyOut)
        \<noteq> NO_ROUTE_FOUND)
   \<and> (routesLoading \<or> some loading qsOut \<longrightarrow>
      state (useBestV3TradeExactOut routes routesLoading qsOut currencyIn amountOut')
        \<noteq> NO_ROUTE_FOUND)"
  by (simp add: useBestV3TradeExactIn_def useBestV3TradeExactOut_def split: option.splits)

theorem loading_before_no_route_witness:
  "useBestV3TradeExactIn threeRoutes False
       [resolved \<lparr>amountOut = 100\<rparr>, resolved \<lparr>amountOut = 95\<rparr>, pending]
       (Some (tenOf ''A'')) (Some ''B'')
     = \<lparr>state = LOADING, trade = None\<rparr>
   \<and> useBestV3TradeExactOut threeRoutes False
       [resolved \<lparr>amountIn = 12\<rparr>, resolved \<lparr>amountIn = 11\<rparr>, pending]
       (Some ''A'') (Some (tenOf ''B''))
     = \<lparr>state = LOADING, trade = None\<rparr>
   \<and> useBestV3TradeExactOut twoRoutes True [pending, notDispatched]
       (Some ''A'') (Some (tenOf ''B''))
     = \<lparr>state = INVALID, trade = None\<rparr>"
  using loading_before_no_route [where routes = threeRoutes and routesLoading = False
      and qsIn = "[resolved \<lparr>amountOut = 100\<rparr>, resolved \<lparr>amountOut = 95\<rparr>, pending]"
      and qsOut = "[resolved \<lparr>amountIn = 12\<rparr>, resolved \<lparr>amountIn = 11\<rparr>, pending]"
      and ain = "tenOf ''A''" and cout = "''B''" and cin = "''A''" and aout = "tenOf ''B''"
      and amountIn' = "Some (tenOf ''A'')" and currencyOut = "Some ''B''"
      and currencyIn = "Some ''A''" and amountOut' = "Some (tenOf ''B'')"]
    loading_before_no_route [where routes = twoRoutes and routesLoading = True
      and qsIn = "[pending]"
      and qsOut = "[pending, notDispatched]"
      and ain = "tenOf ''A''" and cout = "''B''" and cin = "''A''" and aout = "tenOf ''B''"
      and amountIn' = "Some (tenOf ''A'')" and currencyOut = "Some ''B''"
      and currencyIn = "Some ''A''" and amountOut' = "Some (tenOf ''B'')"]
  by (simp add: resolved_def pending_def notDispatched_def some_def)

subsection \<open>State and trade of a winner\<close>

text \<open>
  Claim C7. When a selector has passed its tests and its reduction produces a winner
  (a route and an amount), the returned state is SYNCING if any quote result of the batch
  has its syncing flag set and VALID otherwise, and the trade holds the winning route,
  the fixed amount and the quoted amount of the opposite leg in the counter-asset.
\<close>

theorem winner_state_and_trade:
  "(\<not> routesLoading \<and> \<not> some loading qsIn
      \<and> reduce (stepExactIn routes) \<lparr>bestRoute = None, bestAmount = None\<rparr> qsIn
          = \<lparr>bestRoute = Some r, bestAmount = Some m\<rparr>
     \<longrightarrow> useBestV3TradeExactIn routes routesLoading qsIn (Some ain) (Some cout)
          = \<lparr>state = (if some syncing qsIn then SYNCING else VALID),
             trade = Some \<lparr>route = r, tradeType = EXACT_INPUT, inputAmount = ain,
                           outputAmount = \<lparr>currency = cout, quotient = m\<rparr>\<rparr>\<rparr>)
   \<and> (\<not> some (\<lambda>q. \<not> valid q) qsOut \<and> \<not> routesLoading \<and> \<not> some loading qsOut
      \<and> reduce (stepExactOut routes) \<lparr>bestRoute = None, bestAmount = None\<rparr> qsOut
          = \<lparr>bestRoute = Some r', bestAmount = Some m'\<rparr>
     \<longrightarrow> useBestV3TradeExactOut routes routesLoading qsOut (Some cin) (Some aout)
          = \<lparr>state = (if some syncing qsOut then SYNCING else VALID),
             trade = Some \<lparr>route = r', tradeType = EXACT_OUTPUT,
                           inputAmount = \<lparr>currency = cin, quotient = m'\<rparr>,
                           outputAmount = aout\<rparr>\<rparr>)"
  by (simp add: useBestV3TradeExactIn_def useBestV3TradeExactOut_def createUncheckedTrade_def
      fromRawAmount_def)

theorem winner_state_and_trade_witness:
  "useBestV3TradeExactIn twoRoutes False [resolved \<lparr>amountOut = 100\<rparr>, resolved \<lparr>amountOut = 95\<rparr>]
       (Some (tenOf ''A'')) (Some ''B'')
     = \<lparr>state = VALID,
        trade = Some \<lparr>route = ''A-B'', tradeType = EXACT_INPUT, inputAmount = tenOf ''A'',
                      outputAmount = \<lparr>currency = ''B'', quotient = 100\<rparr>\<rparr>\<rparr>
   \<and> useBestV3TradeExactOut twoRoutes False [resolved \<lparr>amountIn = 12\<rparr>, stale \<lparr>amountIn = 11\<rparr>]
       (Some ''A'') (Some (tenOf ''B''))
     = \<lparr>state = SYNCING,
        trade = Some \<lparr>route = ''A-C-B'', tradeType = EXACT_OUTPUT,
                      inputAmount = \<lparr>currency = ''A'', quotient = 11\<rparr>,
                      outputAmount = tenOf ''B''\<rparr>\<rparr>"
  using winner_state_and_trade [where routes = twoRoutes and routesLoading = False
      and qsIn = "[resolved \<lparr>amountOut = 100\<rparr>, resolved \<lparr>amountOut = 95\<rparr>]"
      and qsOut = "[resolved \<lparr>amountIn = 12\<rparr>, stale \<lparr>amountIn = 11\<rparr>]"
      and r = "''A-B''" and m = 100 and r' = "''A-C-B''" and m' = 11
      and ain = "tenOf ''A''" and cout = "''B''" and cin = "''A''" and aout = "tenOf ''B''"]
  by (simp add: resolved_def stale_def twoRoutes_def some_def reduce_def
      stepExactIn_def stepExactOut_def at_def)

subsection \<open>No candidates\<close>

text \<open>
  Claim C10. With the fixed amount and the counter-asset present and nothing loading, an
  empty route sequence with its empty batch gives NO_ROUTE_FOUND with a null trade, and a
  batch whose dispatched quotes all came back without a result is reported exactly like
  the empty one.
\<close>

theorem empty_batch_no_route:
  fixes routes :: "'r list"
  shows
  "useBestV3TradeExactIn ([] :: 'r list) False [] (Some ain) (Some cout)
     = \<lparr>state = NO_ROUTE_FOUND, trade = None\<rparr>
   \<and> useBestV3TradeExactOut ([] :: 'r list) False [] (Some cin) (Some aout)
     = \<lparr>state = NO_ROUTE_FOUND, trade = None\<rparr>
   \<and> ((\<forall>q \<in> set qsIn. result q = None \<and> \<not> loading q) \<longrightarrow>
        useBestV3TradeExactIn routes False qsIn (Some ain) (Some cout)
          = useBestV3TradeExactIn [] False [] (Some ain) (Some cout))
   \<and> ((\<forall>q \<in> set qsOut. result q = None \<and> \<not> loading q \<and> valid q) \<longrightarrow>
        useBestV3TradeExactOut routes False qsOut (Some cin) (Some aout)
          = useBestV3TradeExactOut [] False [] (Some cin) (Some aout))"
proof -
  have A: "useBestV3TradeExactIn ([] :: 'r list) False [] (Some ain) (Some cout)
     = \<lparr>state = NO_ROUTE_FOUND, trade = None\<rparr>"
    by (simp add: useBestV3TradeExactIn_def some_Nil reduce_Nil)
  have B: "useBestV3TradeExactOut ([] :: 'r list) False [] (Some cin) (Some aout)
     = \<lparr>state = NO_ROUTE_FOUND, trade = None\<rparr>"
    by (simp add: useBestV3TradeExactOut_def some_Nil reduce_Nil)
  have C: "useBestV3TradeExactIn routes False qsIn (Some ain) (Some cout)
          = useBestV3TradeExactIn [] False [] (Some ain) (Some cout)"
    if h: "\<forall>q \<in> set qsIn. result q = None \<and> \<not> loading q"
  proof -
    have "\<forall>q \<in> set (map quoteOfExactIn qsIn). result q = None"
      using h by (simp add: quoteOfExactIn_sel)
    then have "reduce (stepExactIn routes) \<lparr>bestRoute = None, bestAmount = None\<rparr> qsIn
        = \<lparr>bestRoute = None, bestAmount = None\<rparr>"
      by (simp only: reduce_stepExactIn reduce_stepBest_absent)
    moreover have "\<not> some loading qsIn" using h by (simp add: some_iff)
    ultimately show ?thesis
      unfolding A by (simp add: useBestV3TradeExactIn_def)
  qed
  have D: "useBestV3TradeExactOut routes False qsOut (Some cin) (Some aout)
          = useBestV3TradeExactOut [] False [] (Some cin) (Some aout)"
    if h: "\<forall>q \<in> set qsOut. result q = None \<and> \<not> loading q \<and> valid q"
  proof -
    have "\<forall>q \<in> set (map quoteOfExactOut qsOut). result q = None"
      using h by (simp add: quoteOfExactOut_sel)
    then have "reduce (stepExactOut routes) \<lparr>bestRoute = None, bestAmount = None\<rparr> qsOut
        = \<lparr>bestRoute = None, bestAmount = None\<rparr>"
      by (simp only: reduce_stepExactOut reduce_stepBest_absent)
    moreover have "\<not> some loading qsOut" "\<not> some (\<lambda>q. \<not> valid q) qsOut"
      using h by (simp_all add: some_iff)
    ultimately show ?thesis
      unfolding B by (simp add: useBestV3TradeExactOut_def)
  qed
  from A B C D show ?thesis by blast
qed

theorem empty_batch_no_route_witness:
  "useBestV3TradeExactIn twoRoutes False [reverted, reverted] (Some (tenOf ''A'')) (Some ''B'')
     = \<lparr>state = NO_ROUTE_FOUND, trade = None\<rparr>
   \<and> useBestV3TradeExactOut twoRoutes False [reverted, reverted] (Some ''A'') (Some (tenOf ''B''))
     = \<lparr>state = NO_ROUTE_FOUND, trade = None\<rparr>"
  using empty_batch_no_route [where routes = twoRoutes
      and qsIn = "[reverted, reverted]" and qsOut = "[reverted, reverted]"
      and ain = "tenOf ''A''" and cout = "''B''" and cin = "''A''" and aout = "tenOf ''B''"]
  by (simp add: reverted_def)

subsection \<open>Gas ceiling\<close>

text \<open>
  Claim C8 as stated fails: when the chain id is undefined, the hook passes
  \<open>gasRequired: undefined\<close> with its batch of quote calls.
\<close>

theorem gasRequired_without_chain_counterexample:
  "gasRequired 1101 None = None"
  by (simp add: gasRequired_def)

text \<open>
  Claim C8, amended. When the chain id is defined (and not zero), the batch of quote
  calls is issued with a gas ceiling: the override 100,000,000 when the chain is the
  zkEVM chain, the default 2,000,000 for every other chain. When the chain id is
  undefined (or zero) the gas option is undefined.
\<close>

theorem gasRequired_of_chain:
  "(c \<noteq> 0 \<longrightarrow> gasRequired zkevm (Some c)
        = Some (if c = zkevm then 100000000 else 2000000))
   \<and> gasRequired zkevm None = None \<and> gasRequired zkevm (Some 0) = None"
  by (simp add: gasRequired_def QUOTE_GAS_OVERRIDES_def DEFAULT_GAS_QUOTE_def)

theorem gasRequired_of_chain_witness:
  "gasRequired 1101 (Some 1101) = Some 100000000 \<and> gasRequired 1101 (Some 137) = Some 2000000"
  using gasRequired_of_chain [of 1101 1101] gasRequired_of_chain [of 137 1101]
  by simp

subsection \<open>Path encoding\<close>

lemma length_bytesBE: "length (bytesBE n w) = n"
  by (induction n arbitrary: w) simp_all

lemma wordBE_snoc: "wordBE (bs @ [b]) = push_bit 8 (wordBE bs) OR ucast b"
  by (simp add: wordBE_def)

lemma wordBE_bytesBE: "wordBE (bytesBE n w) = take_bit (8 * n) w"
proof (induction n arbitrary: w)
  case 0
  show ?case by (simp add: wordBE_def)
next
  case (Suc n)
  have "push_bit 8 (take_bit (8 * n) (drop_bit 8 w)) OR ucast (ucast w :: byte)
          = take_bit (8 * Suc n) w"
    by (rule bit_word_eqI) (auto simp: bit_simps)
  then show ?case
    by (simp add: wordBE_snoc Suc)
qed

lemma wordBE_address: "wordBE (bytesBE 20 (a :: address)) = a"
  by (simp add: wordBE_bytesBE take_bit_word_eq_self)

lemma wordBE_feeTier: "wordBE (bytesBE 3 (f :: feeTier)) = f"
  by (simp add: wordBE_bytesBE take_bit_word_eq_self)

lemma decodeHops_Nil: "decodeHops [] = Some []"
  by (simp add: decodeHops.simps)

lemma decodeHops_hop:
  "decodeHops (bytesBE 3 (f :: feeTier) @ bytesBE 20 (a :: address) @ rest)
     = map_option (\<lambda>xs. FeeTier f # Asset a # xs) (decodeHops rest)"
proof -
  let ?bs = "bytesBE 3 f @ bytesBE 20 a @ rest"
  have len: "length ?bs = 23 + length rest"
    by (simp add: length_bytesBE)
  then have ne: "(?bs = []) = False" "(length ?bs < 23) = False"
    by auto
  have t3: "take 3 ?bs = bytesBE 3 f" by (simp add: length_bytesBE)
  have t20: "take 20 (drop 3 ?bs) = bytesBE 20 a" by (simp add: length_bytesBE)
  have d: "drop 23 ?bs = rest" by (simp add: length_bytesBE)
  show ?thesis
    by (subst decodeHops.simps) (simp only: ne t3 t20 d if_False wordBE_address wordBE_feeTier)
qed

lemma decodeHops_pack:
  "decodeHops (pack (concat (map (\<lambda>(f, a). [FeeTier f, Asset a]) hs)))
     = Some (concat (map (\<lambda>(f, a). [FeeTier f, Asset a]) hs))"
proof (induction hs)
  case Nil
  show ?case by (simp add: pack_def decodeHops_Nil)
next
  case (Cons h hs)
  obtain f a where h: "h = (f, a)" by (cases h)
  have "pack (concat (map (\<lambda>(f, a). [FeeTier f, Asset a]) (h # hs)))
      = bytesBE 3 f @ bytesBE 20 a @ pack (concat (map (\<lambda>(f, a). [FeeTier f, Asset a]) hs))"
    by (simp add: h pack_def packItem_def)
  then show ?case
    using Cons by (simp add: decodeHops_hop h)
qed

lemma decodePath_pack: "decodePath (pack (routeItems r)) = Some (routeItems r)"
proof -
  let ?rest = "pack (concat (map (\<lambda>(f, a). [FeeTier f, Asset a]) (hops r)))"
  have p: "pack (routeItems r) = bytesBE 20 (start r) @ ?rest"
    by (simp add: routeItems_def pack_def packItem_def)
  show ?thesis
    unfolding p decodePath_def
    by (simp add: length_bytesBE wordBE_address decodeHops_pack routeItems_def)
qed

lemma rev_items:
  "\<exists>r'. rev (Asset s # concat (map (\<lambda>(f, a). [FeeTier f, Asset a]) hs)) = routeItems r'"
proof (induction hs arbitrary: s)
  case Nil
  show ?case
    by (rule exI [of _ "\<lparr>start = s, hops = []\<rparr>"]) (simp add: routeItems_def)
next
  case (Cons h hs)
  obtain f a where h: "h = (f, a)" by (cases h)
  from Cons [of a] obtain r' where
    r': "rev (Asset a # concat (map (\<lambda>(f, a). [FeeTier f, Asset a]) hs)) = routeItems r'"
    by blast
  have "rev (Asset s # concat (map (\<lambda>(f, a). [FeeTier f, Asset a]) (h # hs)))
      = routeItems r' @ [FeeTier f, Asset s]"
    using r' by (simp add: h)
  also have "\<dots> = routeItems \<lparr>start = start r', hops = hops r' @ [(f, s)]\<rparr>"
    by (simp add: routeItems_def)
  finally show ?case by blast
qed

lemma rev_routeItems: "\<exists>r'. rev (routeItems r) = routeItems r'"
  unfolding routeItems_def [of r] by (rule rev_items)

lemma decodePath_pack_rev: "decodePath (pack (rev (routeItems r))) = Some (rev (routeItems r))"
proof -
  from rev_routeItems [of r] obtain r' where "rev (routeItems r) = routeItems r'" ..
  then show ?thesis by (simp add: decodePath_pack)
qed

text \<open>
  Claim C9. For every route, the bytes encoded with the exact-input flag decode to the
  route's asset/fee sequence from start to end, the bytes encoded with the exact-output
  flag decode to the same sequence in reverse order, and the call inputs of the
  exact-input hook hold the paths encoded with the flag false, those of the exact-output
  hook the paths encoded with the flag true.
\<close>

theorem exactOutput_path_is_reversed:
  "decodePath (encodeRouteToPath r False) = Some (routeItems r)
   \<and> decodePath (encodeRouteToPath r True) = Some (rev (routeItems r))
   \<and> decodePath (encodeRouteToPath r True)
       = map_option rev (decodePath (encodeRouteToPath r False))
   \<and> map fst (quoteExactInInputs amountIn' routes) = map (\<lambda>r. encodeRouteToPath r False) routes
   \<and> map fst (quoteExactOutInputs amountOut' routes) = map (\<lambda>r. encodeRouteToPath r True) routes"
  by (simp add: encodeRouteToPath_def decodePath_pack decodePath_pack_rev
      quoteExactInInputs_def quoteExactOutInputs_def comp_def)

theorem exactOutput_path_is_reversed_witness:
  "decodePath (encodeRouteToPath \<lparr>start = 0xAA, hops = [(500, 0xBB), (3000, 0xCC)]\<rparr> True)
     = Some [Asset 0xCC, FeeTier 3000, Asset 0xBB, FeeTier 500, Asset 0xAA]
   \<and> map fst (quoteExactOutInputs (Some (tenOf ''B''))
         [\<lparr>start = 0xAA, hops = [(500, 0xBB)]\<rparr>])
     = [encodeRouteToPath \<lparr>start = 0xAA, hops = [(500, 0xBB)]\<rparr> True]"
  using exactOutput_path_is_reversed [of "\<lparr>start = 0xAA, hops = [(500, 0xBB), (3000, 0xCC)]\<rparr>"
      "None :: string CurrencyAmount option" "[]" "None :: string CurrencyAmount option"]
    exactOutput_path_is_reversed [of "\<lparr>start = 0xAA, hops = [(500, 0xBB)]\<rparr>"
      "None :: string CurrencyAmount option" "[\<lparr>start = 0xAA, hops = [(500, 0xBB)]\<rparr>]"
      "Some (tenOf ''B'')"]
  by (simp add: routeItems_def)

end
